theory Spec2Isabelle
  imports Complex_Main "HOL-Library.Multiset"
begin

section \<open>Numbers and strings of the host language\<close>

text \<open>
  Status codes and order ids are JavaScript numbers that the backend sends as integers;
  they are modelled as \<open>int\<close>. \<open>Number.prototype.toString\<close> on an integer gives its
  decimal digits, with a leading minus sign for a negative one. That is what the source
  computes for an integer below \<open>10^21\<close> in absolute value; from there on JavaScript
  prints an exponent, which the model does not follow. No key of a table of this program
  has that many digits, so a lookup by the printed code misses in both.
\<close>

definition digit_char :: "nat \<Rightarrow> char" where
  "digit_char d = ''0123456789'' ! (d mod 10)"

function nat_toString :: "nat \<Rightarrow> string" where
  "nat_toString n =
     (if n < 10 then [digit_char n] else nat_toString (n div 10) @ [digit_char (n mod 10)])"
  by pat_completeness auto
termination
  by (relation "measure (\<lambda>n. n)") auto

declare nat_toString.simps [simp del]

definition toString :: "int \<Rightarrow> string" where
  "toString i = (if i < 0 then CHR ''-'' # nat_toString (nat (- i)) else nat_toString (nat i))"

text \<open>
  Strings are lists of 8-bit characters, and the functions below are exact on ASCII
  text. \<open>String.prototype.toLowerCase\<close> is modelled on the code units \<open>A\<close> to \<open>Z\<close>;
  every other code unit is passed through, where JavaScript also lowers letters outside
  ASCII. The lower case of a character outside ASCII is outside ASCII again, except for
  the Kelvin sign, which becomes \<open>k\<close>; the literals the result is compared with are
  ASCII and hold no \<open>k\<close>, so the comparisons come out as in the source.
\<close>

definition lower_char :: "char \<Rightarrow> char" where
  "lower_char c =
     (case map_of (zip ''ABCDEFGHIJKLMNOPQRSTUVWXYZ'' ''abcdefghijklmnopqrstuvwxyz'') c of
        Some l \<Rightarrow> l
      | None \<Rightarrow> c)"

definition toLowerCase :: "string \<Rightarrow> string" where
  "toLowerCase s = map lower_char s"

text \<open>
  \<open>String.prototype.trim\<close> and \<open>parseInt(s, 10)\<close>, with the six ASCII white space
  characters as white space (JavaScript counts the no-break space and further Unicode
  spaces too, which an ASCII text does not hold). \<open>parseInt\<close> skips leading white
  space, reads one sign and then the longest run of decimal digits; \<open>None\<close> stands for
  \<open>NaN\<close>. The result is the exact integer, which is the source's double as long as the
  number is below \<open>2^53\<close>.
\<close>

definition is_space :: "char \<Rightarrow> bool" where
  "is_space c = (c \<in> set [CHR '' '', CHR 0x09, CHR 0x0A, CHR 0x0B, CHR 0x0C, CHR 0x0D])"

definition trim :: "string \<Rightarrow> string" where
  "trim s = rev (dropWhile is_space (rev (dropWhile is_space s)))"

definition digit_value :: "char \<Rightarrow> nat option" where
  "digit_value c = map_of (zip ''0123456789'' [0 ..< 10]) c"

fun digits_value :: "nat \<Rightarrow> string \<Rightarrow> nat" where
  "digits_value acc [] = acc"
| "digits_value acc (c # cs) =
     (case digit_value c of None \<Rightarrow> acc | Some d \<Rightarrow> digits_value (acc * 10 + d) cs)"

definition parseInt10 :: "string \<Rightarrow> int option" where
  "parseInt10 s =
     (let t = dropWhile is_space s;
          neg = (case t of [] \<Rightarrow> False | c # _ \<Rightarrow> c = CHR ''-'');
          u = (case t of [] \<Rightarrow> [] | c # r \<Rightarrow> if c = CHR ''-'' \<or> c = CHR ''+'' then r else t)
      in case u of
           [] \<Rightarrow> None
         | c # _ \<Rightarrow>
             (case digit_value c of
                None \<Rightarrow> None
              | Some _ \<Rightarrow> Some ((if neg then - 1 else 1) * int (digits_value 0 u))))"

text \<open>
  \<open>x || undefined\<close> on an optional string: \<open>null\<close>, \<open>undefined\<close> and the empty
  string are falsy and give \<open>undefined\<close>.
\<close>

definition or_undefined :: "string option \<Rightarrow> string option" where
  "or_undefined x = (case x of None \<Rightarrow> None | Some v \<Rightarrow> if v = [] then None else Some v)"

section \<open>Status Registry\<close>

text \<open>The interface \<open>OrderStatusInfo\<close> and the table \<open>ORDER_STATUSES\<close> of the types module.\<close>

record OrderStatusInfo =
  info_id :: string
  info_name :: string
  info_description :: string

definition mkInfo :: "string \<Rightarrow> string \<Rightarrow> string \<Rightarrow> OrderStatusInfo" where
  "mkInfo i n d = \<lparr>info_id = i, info_name = n, info_description = d\<rparr>"

definition ORDER_STATUSES_entries :: "(string \<times> OrderStatusInfo) list" where
  "ORDER_STATUSES_entries =
    [(''4'',   mkInfo ''4''   ''pending''                ''order needs to be confirmed''),
     (''5'',   mkInfo ''5''   ''accepted''               ''order accepted by restaurant''),
     (''8'',   mkInfo ''8''   ''cancelled''              ''order cancelled''),
     (''52'',  mkInfo ''52''  ''assigned''               ''delivery staff assigned''),
     (''53'',  mkInfo ''53''  ''started''                ''reaching restaurant''),
     (''54'',  mkInfo ''54''  ''picked''                 ''order picked by delivery person''),
     (''55'',  mkInfo ''55''  ''missing_items''          ''some items are missing''),
     (''56'',  mkInfo ''56''  ''out_for_delivery''       ''order is out for delivery''),
     (''57'',  mkInfo ''57''  ''reached''                ''reached the location''),
     (''58'',  mkInfo ''58''  ''delivered''              ''order is delivered''),
     (''59'',  mkInfo ''59''  ''not_picked''             ''customer has not picked the order''),
     (''65'',  mkInfo ''65''  ''at_the_restaurant''      ''reached the restaurant''),
     (''263'', mkInfo ''263'' ''customer_not_showed_up'' ''customer did not show up for pickup'')]"

definition ORDER_STATUSES :: "string \<rightharpoonup> OrderStatusInfo" where
  "ORDER_STATUSES = map_of ORDER_STATUSES_entries"

section \<open>Status Transition Engine\<close>

text \<open>
  \<open>getNextStatusId\<close> of the order details screen. The table \<open>statusProgression\<close> is
  a \<open>Record<number, number>\<close>; reading a key that is absent gives \<open>undefined\<close>, and
  \<open>x || null\<close> turns \<open>undefined\<close> and the falsy number \<open>0\<close> into \<open>null\<close>.
\<close>

definition statusProgression :: "int \<rightharpoonup> int" where
  "statusProgression = map_of [(52, 53), (53, 65), (65, 54), (54, 56), (56, 57), (57, 58)]"

definition getNextStatusId :: "int \<Rightarrow> int option" where
  "getNextStatusId currentStatusId =
     (if currentStatusId = 57 then Some 58
      else (case statusProgression currentStatusId of
              None \<Rightarrow> None
            | Some n \<Rightarrow> if n = 0 then None else Some n))"

section \<open>Order Mapper\<close>

text \<open>
  The entities of the types module and the raw records of the helper module. A field
  whose name is taken in HOL or by another record carries a prefix. Amounts, prices and
  coordinates are JavaScript numbers that the mapper only copies; they are reals here.
  The field \<open>status\<close> holds \<open>statusInfo?.name\<close>, which is \<open>undefined\<close>
  (\<open>None\<close>) when the registry has no entry.
\<close>

record Location =
  latitude :: real
  longitude :: real
  address :: string

record OrderItem =
  item_id :: string
  item_name :: string
  quantity :: int
  price :: real
  customizations :: "string list option"

record Order =
  order_id :: string
  orderNumber :: string
  status :: "string option"
  customerName :: "string option"
  customerPhone :: string
  restaurantName :: string
  restaurantAddress :: string
  deliveryAddress :: string
  items :: "OrderItem list"
  totalAmount :: real
  deliveryFee :: real
  distance :: "real option"
  estimatedTime :: "real option"
  pickupLocation :: Location
  dropLocation :: Location
  createdAt :: string
  acceptedAt :: "string option"
  pickedAt :: "string option"
  deliveredAt :: "string option"
  specialInstructions :: "string option"
  paymentMethod :: string
  statusId :: int

record ApiItem =
  itemId :: int
  itemname :: string
  api_quantity :: int
  itemPrice :: real
  itemInstruction :: "string option"

record ApiOrder =
  api_id :: int
  orderId :: string
  api_statusId :: int
  statusName :: string
  custName :: "string option"
  customerContactNo :: string
  api_restaurantName :: string
  resAddress :: string
  customerDeliveryAddress :: string
  api_items :: "ApiItem list"
  amount :: real
  generalInstruction :: "string option"
  paymentTypeName :: string
  resLat :: real
  resLog :: real
  cLat :: real
  cLog :: real
  orderDate :: string
  orderTime :: string
  vendorAcceptedTimeInUTC :: "string option"
  dsAssignedTimeInUTC :: "string option"
  deliveredTime :: "string option"

definition mapApiItemToOrderItem :: "ApiItem \<Rightarrow> OrderItem" where
  "mapApiItemToOrderItem i =
     \<lparr>item_id = toString (itemId i),
      item_name = trim (itemname i),
      quantity = api_quantity i,
      price = itemPrice i,
      customizations = (case or_undefined (itemInstruction i) of
                          None \<Rightarrow> None
                        | Some t \<Rightarrow> Some [t])\<rparr>"

text \<open>The \<open>switch\<close> of \<open>mapApiOrderToOrder\<close> that normalizes the payment method.\<close>

definition normalizePaymentMethod :: "string \<Rightarrow> string" where
  "normalizePaymentMethod raw =
     (let l = toLowerCase raw
      in if l = ''pay on delivery'' \<or> l = ''cash'' then ''cash''
         else if l = ''card'' then ''card''
         else if l = ''upi'' then ''upi''
         else ''cash'')"

definition mapApiOrderToOrder :: "ApiOrder \<Rightarrow> Order" where
  "mapApiOrderToOrder a =
     (let statusInfo = ORDER_STATUSES (toString (api_statusId a));
          status = map_option info_name statusInfo;
          paymentMethod = normalizePaymentMethod (paymentTypeName a)
      in \<lparr>order_id = toString (api_id a),
          orderNumber = orderId a,
          status = status,
          customerName = or_undefined (custName a),
          customerPhone = customerContactNo a,
          restaurantName = api_restaurantName a,
          restaurantAddress = resAddress a,
          deliveryAddress = customerDeliveryAddress a,
          items = map mapApiItemToOrderItem (api_items a),
          totalAmount = amount a,
          deliveryFee = 5,
          distance = None,
          estimatedTime = None,
          pickupLocation = \<lparr>latitude = resLat a, longitude = resLog a, address = resAddress a\<rparr>,
          dropLocation =
            \<lparr>latitude = cLat a, longitude = cLog a, address = customerDeliveryAddress a\<rparr>,
          createdAt = orderDate a @ ''T'' @ orderTime a,
          acceptedAt = or_undefined (vendorAcceptedTimeInUTC a),
          pickedAt = or_undefined (dsAssignedTimeInUTC a),
          deliveredAt = or_undefined (deliveredTime a),
          specialInstructions = or_undefined (generalInstruction a),
          paymentMethod = paymentMethod,
          statusId = api_statusId a\<rparr>)"

text \<open>
  A call of the mapper either returns an order or raises. The body of
  \<open>mapApiOrderToOrder\<close> has no \<open>throw\<close>, and the optional chaining
  \<open>statusInfo?.name\<close> reads a missing registry entry without raising, so on a record of
  type \<open>ApiOrder\<close> the call always returns.
\<close>

datatype MappingError = UnknownStatus

definition mapApiOrderToOrder_call :: "ApiOrder \<Rightarrow> MappingError + Order" where
  "mapApiOrderToOrder_call a = Inr (mapApiOrderToOrder a)"

text \<open>
  \<open>getOrders\<close>: the response of the backend is either a transport error, which is
  logged and thrown again, or the array of raw records, which is mapped element by
  element with \<open>apiOrders.map(mapApiOrderToOrder)\<close>.
\<close>

datatype FetchError = NetworkFailure string

definition getOrders :: "FetchError + ApiOrder list \<Rightarrow> FetchError + Order list" where
  "getOrders response =
     (case response of
        Inl e \<Rightarrow> Inl e
      | Inr apiOrders \<Rightarrow> Inr (map mapApiOrderToOrder apiOrders))"

section \<open>Order Store\<close>

record FilteredOrders =
  currentOrders :: "Order list"
  pastOrders :: "Order list"

definition filterOrders :: "Order list \<Rightarrow> FilteredOrders" where
  "filterOrders orders =
     \<lparr>currentOrders = filter (\<lambda>order. statusId order \<noteq> 58) orders,
      pastOrders = filter (\<lambda>order. statusId order = 58) orders\<rparr>"

section \<open>Rejection Ledger\<close>

text \<open>
  The class \<open>RejectedOrdersStorage\<close>. One record is kept under the key
  \<open>rejected_orders\<close>; the storage is the record, or \<open>None\<close> when the key is absent.
  The date of a record is the string \<open>YYYY-MM-DD\<close> that \<open>getCurrentDateString\<close> cuts
  from \<open>toISOString\<close>, the calendar day in UTC; it is modelled by the number of that day
  since 1970-01-01, so that two date strings are equal when the day numbers are, and
  \<open>new Date(dateString).getTime()\<close> is midnight UTC of that day in milliseconds.
  The environment of one call gives the clock reading of its single \<open>new Date()\<close> and
  says which calls of the key-value store raise. The quotient under \<open>Math.ceil\<close> is
  taken in the reals: both operands are integers far below \<open>2^53\<close>, and a quotient
  that is not a whole number differs from the next one by at least \<open>1/86400000\<close>, which
  the rounding of a double of this size cannot bridge.
\<close>

record RejectedOrdersData =
  date :: int
  orderIds :: "string list"

type_synonym storage = "RejectedOrdersData option"

record IoEnv =
  now :: int
  getItemFails :: bool
  setItemFails :: bool
  removeItemFails :: bool

definition MS_PER_DAY :: int where
  "MS_PER_DAY = 1000 * 60 * 60 * 24"

definition getCurrentDateString :: "IoEnv \<Rightarrow> int" where
  "getCurrentDateString env = now env div MS_PER_DAY"

definition isDateOlderThan3Days :: "int \<Rightarrow> IoEnv \<Rightarrow> bool" where
  "isDateOlderThan3Days dateString env =
     (let d = dateString * MS_PER_DAY;
          today = now env;
          diffTime = today - d;
          diffDays = \<lceil>real_of_int diffTime / real_of_int MS_PER_DAY\<rceil>
      in diffDays > 3)"

text \<open>
  \<open>[...new Set(xs)]\<close>: a set keeps the insertion order and ignores an element it
  already holds.
\<close>

definition set_add :: "'a list \<Rightarrow> 'a \<Rightarrow> 'a list" where
  "set_add acc x = (if x \<in> set acc then acc else acc @ [x])"

definition newSet :: "'a list \<Rightarrow> 'a list" where
  "newSet xs = foldl set_add [] xs"

definition getRejectedOrdersData :: "IoEnv \<Rightarrow> storage \<Rightarrow> RejectedOrdersData option" where
  "getRejectedOrdersData env store = (if getItemFails env then None else store)"

definition clearRejectedOrders :: "IoEnv \<Rightarrow> storage \<Rightarrow> storage" where
  "clearRejectedOrders env store = (if removeItemFails env then store else None)"

definition addRejectedOrder :: "IoEnv \<Rightarrow> string \<Rightarrow> storage \<Rightarrow> storage" where
  "addRejectedOrder env oid store =
     (let currentDate = getCurrentDateString env;
          existingData = getRejectedOrdersData env store;
          rejectedData =
            (case existingData of
               None \<Rightarrow> \<lparr>date = currentDate, orderIds = [oid]\<rparr>
             | Some e \<Rightarrow>
                 if date e = currentDate
                 then \<lparr>date = currentDate, orderIds = newSet (orderIds e @ [oid])\<rparr>
                 else \<lparr>date = currentDate, orderIds = [oid]\<rparr>)
      in if setItemFails env then store else Some rejectedData)"

definition getRejectedOrderIds :: "IoEnv \<Rightarrow> storage \<Rightarrow> string list \<times> storage" where
  "getRejectedOrderIds env store =
     (case getRejectedOrdersData env store of
        None \<Rightarrow> ([], store)
      | Some data \<Rightarrow>
          if isDateOlderThan3Days (date data) env
          then ([], clearRejectedOrders env store)
          else (orderIds data, store))"

definition cleanupOldRejectedOrders :: "IoEnv \<Rightarrow> storage \<Rightarrow> storage" where
  "cleanupOldRejectedOrders env store =
     (case getRejectedOrdersData env store of
        None \<Rightarrow> store
      | Some data \<Rightarrow>
          if isDateOlderThan3Days (date data) env then clearRejectedOrders env store else store)"

definition isOrderRejected :: "IoEnv \<Rightarrow> string \<Rightarrow> storage \<Rightarrow> bool \<times> storage" where
  "isOrderRejected env oid store =
     (case getRejectedOrderIds env store of (rejectedIds, store') \<Rightarrow> (oid \<in> set rejectedIds, store'))"

text \<open>A history of the ledger: the public methods called one after the other.\<close>

datatype LedgerOp = Reject string | ListActive | Cleanup | Clear

fun ledger_step :: "storage \<Rightarrow> IoEnv \<times> LedgerOp \<Rightarrow> storage" where
  "ledger_step store (env, Reject oid) = addRejectedOrder env oid store"
| "ledger_step store (env, ListActive) = snd (getRejectedOrderIds env store)"
| "ledger_step store (env, Cleanup) = cleanupOldRejectedOrders env store"
| "ledger_step store (env, Clear) = clearRejectedOrders env store"

definition ledger_run :: "storage \<Rightarrow> (IoEnv \<times> LedgerOp) list \<Rightarrow> storage" where
  "ledger_run store ops = foldl ledger_step store ops"

text \<open>
  What a history guarantees about the record it leaves: the ids are pairwise different,
  and each was rejected by a call of the history on the calendar day the record carries.
\<close>

definition ledger_inv :: "(IoEnv \<times> LedgerOp) list \<Rightarrow> storage \<Rightarrow> bool" where
  "ledger_inv ops store \<longleftrightarrow>
     (\<forall>r. store = Some r \<longrightarrow>
        distinct (orderIds r) \<and>
        (\<forall>i \<in> set (orderIds r).
           \<exists>x \<in> set ops. snd x = Reject i \<and> getCurrentDateString (fst x) = date r))"

section \<open>Order details screen\<close>

text \<open>\<open>formatOrderStatus\<close> of the formatters module, with its default branch.\<close>

definition upper_char :: "char \<Rightarrow> char" where
  "upper_char c =
     (case map_of (zip ''abcdefghijklmnopqrstuvwxyz'' ''ABCDEFGHIJKLMNOPQRSTUVWXYZ'') c of
        Some u \<Rightarrow> u
      | None \<Rightarrow> c)"

definition formatOrderStatus :: "string \<Rightarrow> string" where
  "formatOrderStatus st =
     (case map_of
        [(''pending'', ''Pending''), (''accepted'', ''Accepted''), (''cancelled'', ''Cancelled''),
         (''assigned'', ''Assigned''), (''started'', ''Started''), (''picked'', ''Picked Up''),
         (''missing_items'', ''Missing Items''), (''out_for_delivery'', ''Out for Delivery''),
         (''reached'', ''Reached''), (''delivered'', ''Delivered''),
         (''not_picked'', ''Not Picked''), (''at_the_restaurant'', ''At Restaurant''),
         (''customer_not_showed_up'', ''Customer No Show''), (''en_route'', ''On the Way'')] st of
        Some label \<Rightarrow> label
      | None \<Rightarrow>
          map upper_char (take 1 st) @
          map (\<lambda>c. if c = CHR ''_'' then CHR '' '' else c) (drop 1 st))"

definition getNextStatusName :: "int \<Rightarrow> string option" where
  "getNextStatusName currentStatusId =
     (case getNextStatusId currentStatusId of
        None \<Rightarrow> None
      | Some nextStatusId \<Rightarrow>
          if nextStatusId = 0 then None
          else map_option (\<lambda>nextStatus. formatOrderStatus (info_name nextStatus))
                 (ORDER_STATUSES (toString nextStatusId)))"

text \<open>
  The state of the screen: the order and the three flags held by \<open>useState\<close>, and a
  trace of what a handler did outside the component (calls of \<open>updatestatusId\<close>, events
  published on \<open>orderUpdateEmitter\<close>, completed runs of the route's callback,
  \<open>navigation.goBack\<close>, alerts as title and message).
\<close>

record Status =
  status_id :: "int option"
  status_statusId :: int
  deliveryStaffId :: int
  deliveryStaffContactNo :: string

record DetailsScreen =
  order :: "Order option"
  loading :: bool
  fetchingOrder :: bool
  showStatusModal :: bool
  updateCalls :: "Status list"
  emitted :: "string list"
  callbackRuns :: nat
  goBacks :: nat
  alerts :: "(string \<times> string) list"

text \<open>
  The awaited call \<open>updatestatusId\<close> either resolves or rejects with an error whose
  \<open>message\<close> may be missing.
\<close>

datatype UpdateResult = UpdateOk | UpdateFailed "string option"

definition message_or :: "string option \<Rightarrow> string \<Rightarrow> string" where
  "message_or m dflt = (case or_undefined m of None \<Rightarrow> dflt | Some t \<Rightarrow> t)"

text \<open>
  What the route parameters hold under the key \<open>onOrderStatusUpdate\<close>, and how the call
  \<open>onOrderStatusUpdate?.()\<close> ends: there are no parameters or no such key (the handler
  navigates back instead); the key holds \<open>undefined\<close> or \<open>null\<close> (nothing is called);
  the key holds a function that returns; the call raises, because the value is not a
  function or because the function raises, with the error's message.
\<close>

datatype CallbackOutcome = NoKey | Nullish | Returns | Throws "string option"

text \<open>
  \<open>handleUpdateOrderStatus\<close>. An error raised after the order was updated and the event
  published lands in the same \<open>catch\<close> as a failed backend call: the error alert is
  shown, and the dialog is not closed.
\<close>

definition handleUpdateOrderStatus ::
    "CallbackOutcome \<Rightarrow> UpdateResult \<Rightarrow> DetailsScreen \<Rightarrow> DetailsScreen" where
  "handleUpdateOrderStatus onOrderStatusUpdate result s =
     (case order s of
        None \<Rightarrow> s
      | Some ord \<Rightarrow>
          (case getNextStatusId (statusId ord) of
             None \<Rightarrow> s
           | Some nextStatusId \<Rightarrow>
               if nextStatusId = 0 then s
               else
                 let s1 = s\<lparr>loading := True,
                            updateCalls := updateCalls s @
                              [\<lparr>status_id = parseInt10 (order_id ord),
                                status_statusId = nextStatusId,
                                deliveryStaffId = 0,
                                deliveryStaffContactNo = []\<rparr>]\<rparr>
                 in (case result of
                       UpdateFailed m \<Rightarrow>
                         s1\<lparr>alerts := alerts s1 @
                               [(''Error'', message_or m ''Failed to update order status'')],
                            loading := False\<rparr>
                     | UpdateOk \<Rightarrow>
                         let nextStatusName =
                               map_option info_name (ORDER_STATUSES (toString nextStatusId));
                             updatedOrder =
                               ord\<lparr>statusId := nextStatusId,
                                   status := (case or_undefined nextStatusName of
                                                None \<Rightarrow> status ord
                                              | Some n \<Rightarrow> Some n)\<rparr>;
                             s2 = s1\<lparr>order := Some updatedOrder,
                                      emitted := emitted s1 @ [''orderUpdated'']\<rparr>;
                             success =
                               (''Success'',
                                ''Order status updated to '' @
                                (case getNextStatusName (statusId ord) of
                                   None \<Rightarrow> ''null''
                                 | Some n \<Rightarrow> n))
                         in (case onOrderStatusUpdate of
                               NoKey \<Rightarrow>
                                 s2\<lparr>goBacks := goBacks s2 + 1,
                                    showStatusModal := False,
                                    alerts := alerts s2 @ [success],
                                    loading := False\<rparr>
                             | Nullish \<Rightarrow>
                                 s2\<lparr>showStatusModal := False,
                                    alerts := alerts s2 @ [success],
                                    loading := False\<rparr>
                             | Returns \<Rightarrow>
                                 s2\<lparr>callbackRuns := callbackRuns s2 + 1,
                                    showStatusModal := False,
                                    alerts := alerts s2 @ [success],
                                    loading := False\<rparr>
                             | Throws m \<Rightarrow>
                                 s2\<lparr>alerts := alerts s2 @
                                      [(''Error'', message_or m ''Failed to update order status'')],
                                    loading := False\<rparr>))))"

text \<open>
  The press handler of the status card.
\<close>

definition handleStatusCardPress :: "DetailsScreen \<Rightarrow> DetailsScreen" where
  "handleStatusCardPress s =
     (case order s of
        None \<Rightarrow> s
      | Some ord \<Rightarrow> if statusId ord \<ge> 52 then s\<lparr>showStatusModal := True\<rparr> else s)"

text \<open>
  A call \<open>formatOrderStatus(order.status)\<close> from the component. The field is typed as a
  string, but the mapper leaves it \<open>undefined\<close> for a code the registry does not know;
  then no \<open>case\<close> of the \<open>switch\<close> matches and \<open>status.charAt(0)\<close> in the default
  branch raises a \<open>TypeError\<close>.
\<close>

datatype RenderError = TypeError

definition formatOrderStatus_call :: "string option \<Rightarrow> RenderError + string" where
  "formatOrderStatus_call st =
     (case st of None \<Rightarrow> Inl TypeError | Some t \<Rightarrow> Inr (formatOrderStatus t))"

text \<open>
  What the component returns, as far as the status control goes: the loading view while
  the order is fetched, the view \<open>Order not found\<close> without an order, and otherwise the
  details with the status card (the \<open>disabled\<close> property of its touchable, the text of
  the badge, the hint \<open>Tap to update status\<close>) and the status dialog (its visibility,
  the line with the current status, the title of the update button when there is a next
  status). The expressions of the element tree are evaluated in the order of the source,
  whether or not the dialog is visible; the first one that raises ends the render, and
  then nothing of the screen is shown. The remaining elements of the tree read fields
  that the mapper always fills and do not raise.
\<close>

record StatusCard =
  card_disabled :: bool
  card_badge :: string
  card_tapToUpdate :: bool

record StatusModal =
  modal_visible :: bool
  modal_currentStatus :: string
  modal_updateButton :: "string option"

datatype Rendered = LoadingView | NotFoundView | DetailsView StatusCard StatusModal

definition render :: "DetailsScreen \<Rightarrow> RenderError + Rendered" where
  "render s =
     (if fetchingOrder s then Inr LoadingView
      else
        (case order s of
           None \<Rightarrow> Inr NotFoundView
         | Some ord \<Rightarrow>
             (case (if status ord = Some ''accepted'' then Inr ''Available''
                    else formatOrderStatus_call (status ord)) of
                Inl e \<Rightarrow> Inl e
              | Inr badge \<Rightarrow>
                  (case formatOrderStatus_call (status ord) of
                     Inl e \<Rightarrow> Inl e
                   | Inr current \<Rightarrow>
                       Inr (DetailsView
                              \<lparr>card_disabled = (statusId ord < 52),
                               card_badge = badge,
                               card_tapToUpdate = (statusId ord \<ge> 52)\<rparr>
                              \<lparr>modal_visible = showStatusModal s,
                               modal_currentStatus = ''Current Status: '' @ current,
                               modal_updateButton =
                                 map_option (\<lambda>n. ''Mark as '' @ n)
                                   (getNextStatusName (statusId ord))\<rparr>)))))"

text \<open>
  The status control is offered when the render yields the details with an enabled
  status card; the hint is shown when the render yields the details with the hint. A
  press reaches the handler only through an enabled card.
\<close>

definition statusControlOffered :: "DetailsScreen \<Rightarrow> bool" where
  "statusControlOffered s =
     (case render s of
        Inr (DetailsView statusCard statusModal) \<Rightarrow> \<not> card_disabled statusCard
      | _ \<Rightarrow> False)"

definition tapToUpdateShown :: "DetailsScreen \<Rightarrow> bool" where
  "tapToUpdateShown s =
     (case render s of
        Inr (DetailsView statusCard statusModal) \<Rightarrow> card_tapToUpdate statusCard
      | _ \<Rightarrow> False)"

definition pressStatusCard :: "DetailsScreen \<Rightarrow> DetailsScreen" where
  "pressStatusCard s = (if statusControlOffered s then handleStatusCardPress s else s)"

section \<open>Dashboard screen\<close>

text \<open>
  \<open>handleToggleOnlineStatus\<close>. The flag \<open>isOnline\<close> lives in the application store
  and is written by \<open>dispatch(setOnlineStatus(value))\<close>. When going online the handler
  asks for the position inside a \<open>try\<close>; the outcome says how far that block got
  before it ended or raised.
\<close>

datatype LocationOutcome =
    PermissionDenied
  | LocationFailed
  | LatitudeStored string
  | Located string string

record Dashboard =
  isOnline :: bool
  activeOrders :: "Order list"
  dashboardAlerts :: "(string \<times> string) list"
  user_latitude :: "string option"
  user_longitude :: "string option"

definition handleToggleOnlineStatus ::
    "bool \<Rightarrow> LocationOutcome \<Rightarrow> Dashboard \<Rightarrow> Dashboard" where
  "handleToggleOnlineStatus v loc s =
     (let acceptedOrders = filter (\<lambda>order. statusId order = 52) (activeOrders s)
      in if \<not> v \<and> length (activeOrders s) > 0 \<and> length acceptedOrders > 0
         then s\<lparr>dashboardAlerts := dashboardAlerts s @
                  [(''Cannot Go Offline'',
                    ''Please complete delivery of the accepted orders before going offline.'')]\<rparr>
         else
           let s1 = (if v
                     then (case loc of
                             PermissionDenied \<Rightarrow> s
                           | LocationFailed \<Rightarrow> s
                           | LatitudeStored la \<Rightarrow> s\<lparr>user_latitude := Some la\<rparr>
                           | Located la lo \<Rightarrow>
                               s\<lparr>user_latitude := Some la, user_longitude := Some lo\<rparr>)
                     else s)
           in s1\<lparr>isOnline := v\<rparr>)"

section \<open>The progression as a path\<close>

text \<open>
  The codes that repeated calls of \<open>getNextStatusId\<close> produce from a code, until it
  answers \<open>null\<close>. The recursion ends because every step lowers the rank of the code.
\<close>

definition progressionRank :: "int \<Rightarrow> nat" where
  "progressionRank c =
     (if c = 52 then 6 else if c = 53 then 5 else if c = 65 then 4 else if c = 54 then 3
      else if c = 56 then 2 else if c = 57 then 1 else 0)"

function progressionPath :: "int \<Rightarrow> int list" where
  "progressionPath c =
     (case getNextStatusId c of None \<Rightarrow> [] | Some n \<Rightarrow> n # progressionPath n)"
  by pat_completeness auto
termination
proof (relation "measure progressionRank")
  show "wf (measure progressionRank)" by simp
next
  fix c n :: int
  assume "getNextStatusId c = Some n"
  then show "(n, c) \<in> measure progressionRank"
    by (auto simp: getNextStatusId_def statusProgression_def progressionRank_def
             split: if_splits)
qed

declare progressionPath.simps [simp del]

section \<open>Sample inputs\<close>

text \<open>Concrete records on which the properties below are evaluated.\<close>

definition sampleApiOrder :: "int \<Rightarrow> int \<Rightarrow> string \<Rightarrow> ApiOrder" where
  "sampleApiOrder i st pay =
     \<lparr>api_id = i, orderId = ''ORD'' @ toString i, api_statusId = st, statusName = [],
      custName = Some ''Asha'', customerContactNo = ''9000000000'',
      api_restaurantName = ''Kitchen'', resAddress = ''1 Main Road'',
      customerDeliveryAddress = ''2 Side Street'',
      api_items = [\<lparr>itemId = 1, itemname = '' Dosa '', api_quantity = 2, itemPrice = 40,
                     itemInstruction = None\<rparr>],
      amount = 85, generalInstruction = None, paymentTypeName = pay,
      resLat = 17, resLog = 78, cLat = 18, cLog = 79,
      orderDate = ''2025-07-01'', orderTime = ''10:10:00'',
      vendorAcceptedTimeInUTC = None, dsAssignedTimeInUTC = None, deliveredTime = None\<rparr>"

definition sampleOrder :: "int \<Rightarrow> int \<Rightarrow> Order" where
  "sampleOrder i st = mapApiOrderToOrder (sampleApiOrder i st ''UPI'')"

definition sampleScreen :: "Order \<Rightarrow> DetailsScreen" where
  "sampleScreen ord =
     \<lparr>order = Some ord, loading = False, fetchingOrder = False, showStatusModal = False,
      updateCalls = [],
      emitted = [], callbackRuns = 0, goBacks = 0, alerts = []\<rparr>"

definition sampleDashboard :: "Order list \<Rightarrow> Dashboard" where
  "sampleDashboard orders =
     \<lparr>isOnline = True, activeOrders = orders, dashboardAlerts = [],
      user_latitude = None, user_longitude = None\<rparr>"

definition sampleEnv :: "int \<Rightarrow> IoEnv" where
  "sampleEnv t = \<lparr>now = t, getItemFails = False, setItemFails = False, removeItemFails = False\<rparr>"

definition sampleRecord :: RejectedOrdersData where
  "sampleRecord = \<lparr>date = 20000, orderIds = [''17'', ''21'']\<rparr>"

section \<open>Properties\<close>

subsection \<open>Auxiliary facts\<close>

lemma statusId_sampleOrder: "statusId (sampleOrder i st) = st"
  by (simp add: sampleOrder_def mapApiOrderToOrder_def Let_def sampleApiOrder_def)

lemma toString_successors:
  "toString 53 = ''53''" "toString 65 = ''65''" "toString 54 = ''54''"
  "toString 56 = ''56''" "toString 57 = ''57''" "toString 58 = ''58''"
  by (simp_all add: toString_def nat_toString.simps digit_char_def)

lemma getNextStatusId_Some:
  "getNextStatusId c = Some n \<longleftrightarrow>
     (c = 52 \<and> n = 53) \<or> (c = 53 \<and> n = 65) \<or> (c = 65 \<and> n = 54) \<or>
     (c = 54 \<and> n = 56) \<or> (c = 56 \<and> n = 57) \<or> (c = 57 \<and> n = 58)"
  by (auto simp: getNextStatusId_def statusProgression_def split: if_splits)

lemma successor_registered:
  assumes "getNextStatusId c = Some n"
  shows "\<exists>info. ORDER_STATUSES (toString n) = Some info \<and> info_name info \<noteq> []"
proof -
  from assms have "n = 53 \<or> n = 65 \<or> n = 54 \<or> n = 56 \<or> n = 57 \<or> n = 58"
    by (auto simp: getNextStatusId_Some)
  then show ?thesis
    by (elim disjE)
       (simp_all add: toString_successors ORDER_STATUSES_def ORDER_STATUSES_entries_def mkInfo_def)
qed

lemma getNextStatusId_rank:
  "getNextStatusId c = Some n \<Longrightarrow> progressionRank n < progressionRank c"
  by (auto simp: getNextStatusId_Some progressionRank_def)

lemma length_progressionPath: "length (progressionPath c) = progressionRank c"
proof (induction c rule: progressionPath.induct)
  case (1 c)
  show ?case
  proof (cases "getNextStatusId c")
    case None
    then have "progressionRank c = 0"
      by (auto simp: getNextStatusId_def statusProgression_def progressionRank_def split: if_splits)
    with None show ?thesis by (simp add: progressionPath.simps [of c])
  next
    case (Some n)
    then have "progressionRank c = Suc (progressionRank n)"
      by (auto simp: getNextStatusId_Some progressionRank_def)
    with Some 1 show ?thesis by (simp add: progressionPath.simps [of c])
  qed
qed

lemma progressionPath_rank:
  "n \<in> set (progressionPath c) \<Longrightarrow> progressionRank n < progressionRank c"
proof (induction c rule: progressionPath.induct)
  case (1 c)
  show ?case
  proof (cases "getNextStatusId c")
    case None
    with 1 show ?thesis by (simp add: progressionPath.simps [of c])
  next
    case (Some m)
    from 1(2) Some have "n = m \<or> n \<in> set (progressionPath m)"
      by (simp add: progressionPath.simps [of c])
    with 1(1) [OF Some] getNextStatusId_rank [OF Some] show ?thesis by auto
  qed
qed

lemma progressionPath_registered:
  "n \<in> set (progressionPath c) \<Longrightarrow> ORDER_STATUSES (toString n) \<noteq> None"
proof (induction c rule: progressionPath.induct)
  case (1 c)
  show ?case
  proof (cases "getNextStatusId c")
    case None
    with 1 show ?thesis by (simp add: progressionPath.simps [of c])
  next
    case (Some m)
    from 1(2) Some have "n = m \<or> n \<in> set (progressionPath m)"
      by (simp add: progressionPath.simps [of c])
    with 1(1) [OF Some] successor_registered [OF Some] show ?thesis by auto
  qed
qed

lemma progressionPath_52: "progressionPath 52 = [53, 65, 54, 56, 57, 58]"
  by (simp add: progressionPath.simps getNextStatusId_def statusProgression_def)

lemma progressionPath_end: "getNextStatusId (last (c # progressionPath c)) = None"
proof (induction c rule: progressionPath.induct)
  case (1 c)
  show ?case
  proof (cases "getNextStatusId c")
    case None
    then show ?thesis by (simp add: progressionPath.simps [of c])
  next
    case (Some m)
    with 1 [OF Some] show ?thesis by (simp add: progressionPath.simps [of c])
  qed
qed

lemma toString_999: "toString 999 = ''999''"
  by (simp add: toString_def nat_toString.simps digit_char_def)

lemma unregistered_999: "ORDER_STATUSES (toString 999) = None"
  by (simp add: toString_999 ORDER_STATUSES_def ORDER_STATUSES_entries_def)

lemma toString_52: "toString 52 = ''52''"
  by (simp add: toString_def nat_toString.simps digit_char_def)

lemma registered_52: "ORDER_STATUSES (toString 52) = Some (mkInfo ''52'' ''assigned'' ''delivery staff assigned'')"
  by (simp add: toString_52 ORDER_STATUSES_def ORDER_STATUSES_entries_def)

lemma isDateOlderThan3Days_iff:
  "isDateOlderThan3Days d env \<longleftrightarrow> now env - d * MS_PER_DAY > 3 * MS_PER_DAY"
proof -
  have pos: "(0::real) < real_of_int MS_PER_DAY" by (simp add: MS_PER_DAY_def)
  have "isDateOlderThan3Days d env \<longleftrightarrow>
          3 < \<lceil>real_of_int (now env - d * MS_PER_DAY) / real_of_int MS_PER_DAY\<rceil>"
    by (simp add: isDateOlderThan3Days_def Let_def)
  also have "\<dots> \<longleftrightarrow> real_of_int 3 < real_of_int (now env - d * MS_PER_DAY) / real_of_int MS_PER_DAY"
    by (rule less_ceiling_iff)
  also have "\<dots> \<longleftrightarrow> real_of_int 3 * real_of_int MS_PER_DAY < real_of_int (now env - d * MS_PER_DAY)"
    using pos by (simp only: pos_less_divide_eq)
  also have "\<dots> \<longleftrightarrow> real_of_int (3 * MS_PER_DAY) < real_of_int (now env - d * MS_PER_DAY)"
    by simp
  also have "\<dots> \<longleftrightarrow> 3 * MS_PER_DAY < now env - d * MS_PER_DAY"
    by (rule of_int_less_iff)
  finally show ?thesis .
qed

lemma now_split:
  "now env = getCurrentDateString env * MS_PER_DAY + now env mod MS_PER_DAY \<and>
   0 \<le> now env mod MS_PER_DAY \<and> now env mod MS_PER_DAY < MS_PER_DAY"
  by (simp add: getCurrentDateString_def MS_PER_DAY_def)

lemma getRejectedOrderIds_ok:
  "\<not> getItemFails env \<Longrightarrow> \<not> removeItemFails env \<Longrightarrow>
   getRejectedOrderIds env (Some r) =
     (if now env - date r * MS_PER_DAY > 3 * MS_PER_DAY then ([], None) else (orderIds r, Some r))"
  by (simp add: getRejectedOrderIds_def getRejectedOrdersData_def clearRejectedOrders_def
                isDateOlderThan3Days_iff)

lemma foldl_set_add_props:
  "distinct acc \<Longrightarrow>
   distinct (foldl set_add acc xs) \<and> set (foldl set_add acc xs) = set acc \<union> set xs"
  by (induction xs arbitrary: acc) (auto simp: set_add_def)

lemma distinct_newSet: "distinct (newSet xs)"
  using foldl_set_add_props [of "[]" xs] by (simp add: newSet_def)

lemma set_newSet: "set (newSet xs) = set xs"
  using foldl_set_add_props [of "[]" xs] by (simp add: newSet_def)

lemma foldl_set_add_distinct:
  "distinct (acc @ xs) \<Longrightarrow> foldl set_add acc xs = acc @ xs"
  by (induction xs arbitrary: acc) (auto simp: set_add_def)

lemma newSet_distinct: "distinct xs \<Longrightarrow> newSet xs = xs"
  using foldl_set_add_distinct [of "[]" xs] by (simp add: newSet_def)

lemma newSet_snoc: "newSet (xs @ [x]) = set_add (newSet xs) x"
  by (simp add: newSet_def)

lemma newSet_again: "newSet (newSet (xs @ [x]) @ [x]) = newSet (xs @ [x])"
proof -
  have "x \<in> set (newSet (xs @ [x]))" by (simp add: set_newSet)
  then have "set_add (newSet (newSet (xs @ [x]))) x = newSet (newSet (xs @ [x]))"
    by (simp add: set_add_def newSet_distinct [OF distinct_newSet])
  then show ?thesis
    by (simp add: newSet_snoc [of "newSet (xs @ [x])"] newSet_distinct [OF distinct_newSet])
qed

lemma count_list_distinct: "distinct xs \<Longrightarrow> x \<in> set xs \<Longrightarrow> count_list xs x = 1"
  by (induction xs) (auto simp: count_list_0_iff)

lemma count_newSet_snoc: "count_list (newSet (xs @ [x])) x = 1"
  by (rule count_list_distinct) (simp_all add: distinct_newSet set_newSet)

lemma addRejectedOrder_written:
  "\<not> setItemFails e \<Longrightarrow>
   \<exists>r. addRejectedOrder e oid store = Some r \<and> date r = getCurrentDateString e \<and>
       count_list (orderIds r) oid = 1 \<and> distinct (orderIds r)"
  by (auto simp: addRejectedOrder_def Let_def count_newSet_snoc distinct_newSet
           split: option.splits)

lemma addRejectedOrder_twice:
  assumes "\<not> setItemFails e1" "\<not> setItemFails e2" "\<not> getItemFails e2"
    and "getCurrentDateString e1 = getCurrentDateString e2"
  shows "addRejectedOrder e2 oid (addRejectedOrder e1 oid store) = addRejectedOrder e1 oid store"
proof -
  let ?d = "getCurrentDateString e2"
  have *: "addRejectedOrder e2 oid (Some \<lparr>date = ?d, orderIds = newSet (ids @ [oid])\<rparr>) =
           Some \<lparr>date = ?d, orderIds = newSet (ids @ [oid])\<rparr>" for ids
    using assms by (simp add: addRejectedOrder_def getRejectedOrdersData_def Let_def newSet_again)
  have **: "addRejectedOrder e2 oid (Some \<lparr>date = ?d, orderIds = [oid]\<rparr>) =
           Some \<lparr>date = ?d, orderIds = [oid]\<rparr>"
    using *[of "[]"] by (simp add: newSet_def set_add_def)
  show ?thesis
    using assms * **
    by (cases "getRejectedOrdersData e1 store")
       (auto simp: addRejectedOrder_def [of e1] Let_def)
qed

lemma ledger_inv_mono: "ledger_inv ops store \<Longrightarrow> ledger_inv (ops @ [x]) store"
  by (auto simp: ledger_inv_def)

lemma ledger_inv_None: "ledger_inv ops None"
  by (simp add: ledger_inv_def)

lemma ledger_inv_reject:
  assumes "ledger_inv ops store"
  shows "ledger_inv (ops @ [(env, Reject oid)]) (addRejectedOrder env oid store)"
proof (cases "setItemFails env")
  case True
  then have "addRejectedOrder env oid store = store" by (simp add: addRejectedOrder_def Let_def)
  with assms show ?thesis by (simp add: ledger_inv_mono)
next
  case False
  show ?thesis
  proof (cases "getRejectedOrdersData env store")
    case None
    with False show ?thesis
      by (simp add: addRejectedOrder_def Let_def ledger_inv_def)
  next
    case (Some e)
    then have st: "store = Some e" by (simp add: getRejectedOrdersData_def split: if_splits)
    show ?thesis
    proof (cases "date e = getCurrentDateString env")
      case True
      with False Some assms st show ?thesis
        by (auto simp: addRejectedOrder_def Let_def ledger_inv_def distinct_newSet set_newSet)
    next
      case diff: False
      with False Some show ?thesis
        by (simp add: addRejectedOrder_def Let_def ledger_inv_def)
    qed
  qed
qed

lemma ledger_inv_step:
  assumes "ledger_inv ops store"
  shows "ledger_inv (ops @ [x]) (ledger_step store x)"
proof (cases x)
  case (Pair env op)
  show ?thesis
  proof (cases op)
    case (Reject oid)
    with Pair assms show ?thesis by (simp add: ledger_inv_reject)
  next
    case ListActive
    have "snd (getRejectedOrderIds env store) = store \<or> snd (getRejectedOrderIds env store) = None"
      by (auto simp: getRejectedOrderIds_def clearRejectedOrders_def split: option.splits)
    with Pair ListActive assms show ?thesis
      by (auto simp: ledger_inv_mono ledger_inv_None)
  next
    case Cleanup
    have "cleanupOldRejectedOrders env store = store \<or> cleanupOldRejectedOrders env store = None"
      by (auto simp: cleanupOldRejectedOrders_def clearRejectedOrders_def split: option.splits)
    with Pair Cleanup assms show ?thesis
      by (auto simp: ledger_inv_mono ledger_inv_None)
  next
    case Clear
    have "clearRejectedOrders env store = store \<or> clearRejectedOrders env store = None"
      by (auto simp: clearRejectedOrders_def)
    with Pair Clear assms show ?thesis
      by (auto simp: ledger_inv_mono ledger_inv_None)
  qed
qed

lemma ledger_inv_run: "ledger_inv ops (ledger_run None ops)"
proof (induction ops rule: rev_induct)
  case Nil
  show ?case by (simp add: ledger_run_def ledger_inv_None)
next
  case (snoc x ops)
  then show ?case using ledger_inv_step [of ops "ledger_run None ops" x]
    by (simp add: ledger_run_def)
qed

lemma registered_53:
  "ORDER_STATUSES (toString 53) = Some (mkInfo ''53'' ''started'' ''reaching restaurant'')"
  by (simp add: toString_successors ORDER_STATUSES_def ORDER_STATUSES_entries_def)

text \<open>
  On a screen that is not loading and holds an order with a defined status, the render
  yields the details, and the status card is enabled, the hint is shown and a press opens
  the dialog exactly when the order's \<open>statusId\<close> is at least 52.
\<close>

lemma render_defined_status:
  assumes "\<not> fetchingOrder s" "order s = Some ord" "status ord = Some st"
  shows "\<exists>badge modal.
           render s =
             Inr (DetailsView
                    \<lparr>card_disabled = (statusId ord < 52), card_badge = badge,
                     card_tapToUpdate = (statusId ord \<ge> 52)\<rparr> modal)"
  using assms by (simp add: render_def formatOrderStatus_call_def)

lemma status_control_defined_status:
  assumes "\<not> fetchingOrder s" "order s = Some ord" "status ord = Some st"
  shows "(statusControlOffered s \<longleftrightarrow> statusId ord \<ge> 52) \<and>
         (tapToUpdateShown s \<longleftrightarrow> statusId ord \<ge> 52) \<and>
         (showStatusModal (handleStatusCardPress s) \<longleftrightarrow>
            showStatusModal s \<or> statusId ord \<ge> 52) \<and>
         (statusId ord < 52 \<longrightarrow> handleStatusCardPress s = s \<and> pressStatusCard s = s) \<and>
         (statusId ord \<ge> 52 \<longrightarrow> pressStatusCard s = s\<lparr>showStatusModal := True\<rparr>)"
proof -
  from render_defined_status [OF assms] obtain badge modal where
    r: "render s =
          Inr (DetailsView
                 \<lparr>card_disabled = (statusId ord < 52), card_badge = badge,
                  card_tapToUpdate = (statusId ord \<ge> 52)\<rparr> modal)"
    by blast
  have offered: "statusControlOffered s \<longleftrightarrow> statusId ord \<ge> 52"
    by (auto simp: statusControlOffered_def r)
  have hint: "tapToUpdateShown s \<longleftrightarrow> statusId ord \<ge> 52"
    by (simp add: tapToUpdateShown_def r)
  have press: "showStatusModal (handleStatusCardPress s) \<longleftrightarrow>
                 showStatusModal s \<or> statusId ord \<ge> 52"
    and low: "statusId ord < 52 \<longrightarrow> handleStatusCardPress s = s"
    and high: "statusId ord \<ge> 52 \<longrightarrow> handleStatusCardPress s = s\<lparr>showStatusModal := True\<rparr>"
    using assms(2) by (auto simp: handleStatusCardPress_def)
  from offered hint press low high show ?thesis
    by (auto simp: pressStatusCard_def)
qed

lemma status_control_assigned_order:
  "statusControlOffered (sampleScreen (sampleOrder 7 52)) \<and>
   tapToUpdateShown (sampleScreen (sampleOrder 7 52)) \<and>
   \<not> statusControlOffered (sampleScreen (sampleOrder 8 5))"
proof -
  have f: "\<not> fetchingOrder (sampleScreen ord)" and o: "order (sampleScreen ord) = Some ord"
    for ord
    by (simp_all add: sampleScreen_def)
  have a: "status (sampleOrder 7 52) = Some ''assigned''"
    by (simp add: sampleOrder_def mapApiOrderToOrder_def Let_def sampleApiOrder_def
                  registered_52 mkInfo_def)
  have b: "status (sampleOrder 8 5) = Some ''accepted''"
    by (simp add: sampleOrder_def mapApiOrderToOrder_def Let_def sampleApiOrder_def
                  toString_def nat_toString.simps digit_char_def
                  ORDER_STATUSES_def ORDER_STATUSES_entries_def mkInfo_def)
  from status_control_defined_status [OF f o a] status_control_defined_status [OF f o b]
  show ?thesis by (simp add: statusId_sampleOrder)
qed

subsection \<open>The claims\<close>

text \<open>
  Claim C1. \<open>getNextStatusId\<close> returns the declared successor for each of the six keys
  of the progression table (52 to 53, 53 to 65, 65 to 54, 54 to 56, 56 to 57, 57 to 58)
  and returns nothing for every other code, among them 58, 263 and every code below 52.
\<close>

theorem getNextStatusId_table:
  "getNextStatusId 52 = Some 53 \<and> getNextStatusId 53 = Some 65 \<and>
   getNextStatusId 65 = Some 54 \<and> getNextStatusId 54 = Some 56 \<and>
   getNextStatusId 56 = Some 57 \<and> getNextStatusId 57 = Some 58 \<and>
   (\<forall>c. c \<notin> {52, 53, 65, 54, 56, 57} \<longrightarrow> getNextStatusId c = None) \<and>
   getNextStatusId 58 = None \<and> getNextStatusId 263 = None \<and>
   (\<forall>c. c < 52 \<longrightarrow> getNextStatusId c = None)"
  by (simp add: getNextStatusId_def statusProgression_def)

theorem getNextStatusId_table_witness:
  "(4::int) \<notin> {52, 53, 65, 54, 56, 57} \<and> (4::int) < 52 \<and> getNextStatusId 4 = None"
  using getNextStatusId_table by simp

text \<open>
  Claim C3. \<open>filterOrders\<close> is exhaustive and disjoint: the two lists together hold
  every input order as often as the input does, no order is in both, an order is in
  \<open>pastOrders\<close> exactly when it is an input order whose \<open>statusId\<close> is 58, and every
  other input order, whatever its code, is in \<open>currentOrders\<close>.
\<close>

theorem filterOrders_partition:
  "mset (currentOrders (filterOrders orders)) + mset (pastOrders (filterOrders orders)) = mset orders \<and>
   set (currentOrders (filterOrders orders)) \<inter> set (pastOrders (filterOrders orders)) = {} \<and>
   (\<forall>order. order \<in> set (pastOrders (filterOrders orders)) \<longleftrightarrow>
       order \<in> set orders \<and> statusId order = 58) \<and>
   (\<forall>order. order \<in> set (currentOrders (filterOrders orders)) \<longleftrightarrow>
       order \<in> set orders \<and> statusId order \<noteq> 58)"
proof -
  have "mset (filter (\<lambda>order. statusId order \<noteq> 58) orders) +
        mset (filter (\<lambda>order. statusId order = 58) orders) = mset orders"
    by (induction orders) simp_all
  then show ?thesis by (auto simp: filterOrders_def)
qed

theorem filterOrders_partition_witness:
  "sampleOrder 1 58 \<in> set (pastOrders (filterOrders [sampleOrder 1 58, sampleOrder 2 8])) \<and>
   sampleOrder 2 8 \<in> set (currentOrders (filterOrders [sampleOrder 1 58, sampleOrder 2 8])) \<and>
   sampleOrder 2 8 \<notin> set (pastOrders (filterOrders [sampleOrder 1 58, sampleOrder 2 8]))"
  using filterOrders_partition [of "[sampleOrder 1 58, sampleOrder 2 8]"]
  by (simp add: statusId_sampleOrder)

text \<open>
  Claim C7. The payment method of a mapped order is the normalization of the raw string,
  which is always one of \<open>cash\<close>, \<open>card\<close> and \<open>upi\<close>. The raw string is compared after
  lowering its case: it gives \<open>card\<close> or \<open>upi\<close> exactly when its lower-case form is that
  word, two strings with the same lower-case form give the same result, and every string
  whose lower-case form is none of the three words gives \<open>cash\<close>.
\<close>

theorem normalizePaymentMethod_total:
  "paymentMethod (mapApiOrderToOrder a) = normalizePaymentMethod (paymentTypeName a) \<and>
   normalizePaymentMethod raw \<in> {''cash'', ''card'', ''upi''} \<and>
   (normalizePaymentMethod raw = ''card'' \<longleftrightarrow> toLowerCase raw = ''card'') \<and>
   (normalizePaymentMethod raw = ''upi'' \<longleftrightarrow> toLowerCase raw = ''upi'') \<and>
   (toLowerCase raw \<notin> {''cash'', ''card'', ''upi''} \<longrightarrow> normalizePaymentMethod raw = ''cash'') \<and>
   (toLowerCase raw = toLowerCase raw' \<longrightarrow>
      normalizePaymentMethod raw = normalizePaymentMethod raw')"
  by (simp add: normalizePaymentMethod_def mapApiOrderToOrder_def Let_def)

theorem normalizePaymentMethod_total_witness:
  "toLowerCase ''Net Banking'' \<notin> {''cash'', ''card'', ''upi''} \<and>
   normalizePaymentMethod ''Net Banking'' = ''cash'' \<and>
   toLowerCase ''UPI'' = toLowerCase ''Upi'' \<and>
   normalizePaymentMethod ''UPI'' = normalizePaymentMethod ''Upi'' \<and>
   normalizePaymentMethod ''CaRd'' = ''card''"
proof -
  have l: "toLowerCase ''Net Banking'' = ''net banking''" "toLowerCase ''UPI'' = ''upi''"
    "toLowerCase ''Upi'' = ''upi''" "toLowerCase ''CaRd'' = ''card''"
    by (simp_all add: toLowerCase_def lower_char_def)
  have 1: "toLowerCase ''Net Banking'' \<notin> {''cash'', ''card'', ''upi''}"
    by (simp add: l)
  have 2: "normalizePaymentMethod ''Net Banking'' = ''cash''"
    using 1 normalizePaymentMethod_total [of _ "''Net Banking''"] by blast
  have 3: "toLowerCase ''UPI'' = toLowerCase ''Upi''"
    by (simp add: l)
  have 4: "normalizePaymentMethod ''UPI'' = normalizePaymentMethod ''Upi''"
    using 3 normalizePaymentMethod_total [of _ "''UPI''" "''Upi''"] by blast
  have 5: "normalizePaymentMethod ''CaRd'' = ''card''"
    using l(4) normalizePaymentMethod_total [of _ "''CaRd''"] by blast
  from 1 2 3 4 5 show ?thesis by blast
qed



text \<open>
  Claim C9. When the courier is online and the list of active orders holds an order with
  \<open>statusId\<close> 52, switching to offline only raises the alert \<open>Cannot Go Offline\<close>: the
  online flag stays true and the list is unchanged. No call of the switch handler, with
  either value, leaves such a state offline.
\<close>

theorem offline_blocked_with_assigned_order:
  "isOnline s \<Longrightarrow> \<exists>order \<in> set (activeOrders s). statusId order = 52 \<Longrightarrow>
   handleToggleOnlineStatus False loc s =
     s\<lparr>dashboardAlerts := dashboardAlerts s @
         [(''Cannot Go Offline'',
           ''Please complete delivery of the accepted orders before going offline.'')]\<rparr> \<and>
   isOnline (handleToggleOnlineStatus False loc s) \<and>
   activeOrders (handleToggleOnlineStatus False loc s) = activeOrders s \<and>
   (\<forall>v. isOnline (handleToggleOnlineStatus v loc s))"
proof -
  assume on: "isOnline s" and held: "\<exists>order \<in> set (activeOrders s). statusId order = 52"
  from held have ne: "filter (\<lambda>order. statusId order = 52) (activeOrders s) \<noteq> []"
    by (auto simp: filter_empty_conv)
  then have ne': "activeOrders s \<noteq> []" by auto
  have blocked: "handleToggleOnlineStatus False loc s =
     s\<lparr>dashboardAlerts := dashboardAlerts s @
         [(''Cannot Go Offline'',
           ''Please complete delivery of the accepted orders before going offline.'')]\<rparr>"
    using ne ne' by (simp add: handleToggleOnlineStatus_def Let_def)
  have all: "isOnline (handleToggleOnlineStatus v loc s)" for v
  proof (cases v)
    case True
    then show ?thesis by (simp add: handleToggleOnlineStatus_def Let_def)
  next
    case False
    with blocked on show ?thesis by simp
  qed
  from blocked on all show ?thesis by simp
qed

theorem offline_blocked_with_assigned_order_witness:
  "isOnline (sampleDashboard [sampleOrder 8 5, sampleOrder 7 52]) \<and>
   (\<exists>order \<in> set (activeOrders (sampleDashboard [sampleOrder 8 5, sampleOrder 7 52])).
      statusId order = 52) \<and>
   isOnline (handleToggleOnlineStatus False PermissionDenied
               (sampleDashboard [sampleOrder 8 5, sampleOrder 7 52]))"
proof -
  have a: "isOnline (sampleDashboard [sampleOrder 8 5, sampleOrder 7 52])"
    by (simp add: sampleDashboard_def)
  have b: "\<exists>order \<in> set (activeOrders (sampleDashboard [sampleOrder 8 5, sampleOrder 7 52])).
             statusId order = 52"
    by (simp add: sampleDashboard_def statusId_sampleOrder)
  from a b offline_blocked_with_assigned_order [OF a b, of PermissionDenied]
  show ?thesis by blast
qed

text \<open>
  Claim C10. The progression is acyclic and ends: from every code, the codes that
  repeated calls of \<open>getNextStatusId\<close> produce are at most 6, after which the answer is
  \<open>null\<close>; from 52 they are 53, 65, 54, 56, 57, 58; no code comes back to itself; and
  every code \<open>getNextStatusId\<close> returns, hence every code on a path, is a key of
  \<open>ORDER_STATUSES\<close>.
\<close>

theorem progression_terminates:
  "length (progressionPath c) \<le> 6 \<and>
   progressionPath 52 = [53, 65, 54, 56, 57, 58] \<and>
   getNextStatusId (last (c # progressionPath c)) = None \<and>
   c \<notin> set (progressionPath c) \<and>
   (\<forall>n. getNextStatusId c = Some n \<longrightarrow> ORDER_STATUSES (toString n) \<noteq> None) \<and>
   (\<forall>n \<in> set (progressionPath c). ORDER_STATUSES (toString n) \<noteq> None)"
proof -
  have "progressionRank c \<le> 6" by (simp add: progressionRank_def)
  then have len: "length (progressionPath c) \<le> 6" by (simp add: length_progressionPath)
  have acyclic: "c \<notin> set (progressionPath c)" using progressionPath_rank [of c c] by auto
  have succ: "\<forall>n. getNextStatusId c = Some n \<longrightarrow> ORDER_STATUSES (toString n) \<noteq> None"
    using successor_registered [of c] by auto
  have path: "\<forall>n \<in> set (progressionPath c). ORDER_STATUSES (toString n) \<noteq> None"
    using progressionPath_registered [of _ c] by blast
  from len progressionPath_52 progressionPath_end [of c] acyclic succ path
  show ?thesis by blast
qed

theorem progression_terminates_witness:
  "getNextStatusId 56 = Some 57 \<and> 57 \<in> set (progressionPath 56) \<and>
   length (progressionPath 56) \<le> 6 \<and> ORDER_STATUSES (toString 57) \<noteq> None"
proof -
  have a: "getNextStatusId 56 = Some 57"
    by (simp add: getNextStatusId_def statusProgression_def)
  have b: "progressionPath 56 = [57, 58]"
    by (simp add: progressionPath.simps getNextStatusId_def statusProgression_def)
  from a b progression_terminates [of 56] show ?thesis by simp
qed

text \<open>
  Claim C2, as the code has it. The mapper does not fail on a raw record whose status
  code has no entry in the registry: it returns an order whose \<open>status\<close> is undefined and
  whose \<open>statusId\<close> is the raw code. A registered code gives the registry's name. Every
  record of a batch is mapped, in order, so the mapped list is as long as the batch.
\<close>

theorem mapApiOrderToOrder_never_fails:
  "mapApiOrderToOrder_call a = Inr (mapApiOrderToOrder a) \<and>
   statusId (mapApiOrderToOrder a) = api_statusId a \<and>
   (ORDER_STATUSES (toString (api_statusId a)) = None \<longrightarrow>
      status (mapApiOrderToOrder a) = None) \<and>
   (\<forall>info. ORDER_STATUSES (toString (api_statusId a)) = Some info \<longrightarrow>
      status (mapApiOrderToOrder a) = Some (info_name info)) \<and>
   getOrders (Inr batch) = Inr (map mapApiOrderToOrder batch) \<and>
   (\<forall>os. getOrders (Inr batch) = Inr os \<longrightarrow>
      length os = length batch \<and>
      (\<forall>i < length batch. os ! i = mapApiOrderToOrder (batch ! i)))"
  by (auto simp: mapApiOrderToOrder_call_def mapApiOrderToOrder_def Let_def getOrders_def)

theorem mapApiOrderToOrder_never_fails_witness:
  "ORDER_STATUSES (toString (api_statusId (sampleApiOrder 3 999 ''Cash''))) = None \<and>
   status (mapApiOrderToOrder (sampleApiOrder 3 999 ''Cash'')) = None \<and>
   ORDER_STATUSES (toString (api_statusId (sampleApiOrder 7 52 ''Cash''))) =
     Some (mkInfo ''52'' ''assigned'' ''delivery staff assigned'') \<and>
   status (mapApiOrderToOrder (sampleApiOrder 7 52 ''Cash'')) = Some ''assigned'' \<and>
   getOrders (Inr [sampleApiOrder 3 999 ''Cash'', sampleApiOrder 7 52 ''Cash'']) =
     Inr [mapApiOrderToOrder (sampleApiOrder 3 999 ''Cash''),
          mapApiOrderToOrder (sampleApiOrder 7 52 ''Cash'')]"
proof -
  have a: "ORDER_STATUSES (toString (api_statusId (sampleApiOrder 3 999 ''Cash''))) = None"
    by (simp add: sampleApiOrder_def unregistered_999)
  have b: "ORDER_STATUSES (toString (api_statusId (sampleApiOrder 7 52 ''Cash''))) =
             Some (mkInfo ''52'' ''assigned'' ''delivery staff assigned'')"
    by (simp add: sampleApiOrder_def registered_52)
  have c: "status (mapApiOrderToOrder (sampleApiOrder 3 999 ''Cash'')) = None"
    using a mapApiOrderToOrder_never_fails [of "sampleApiOrder 3 999 ''Cash''"] by blast
  have d: "status (mapApiOrderToOrder (sampleApiOrder 7 52 ''Cash'')) = Some ''assigned''"
    using b mapApiOrderToOrder_never_fails [of "sampleApiOrder 7 52 ''Cash''"]
    by (simp add: mkInfo_def)
  have e: "getOrders (Inr [sampleApiOrder 3 999 ''Cash'', sampleApiOrder 7 52 ''Cash'']) =
     Inr [mapApiOrderToOrder (sampleApiOrder 3 999 ''Cash''),
          mapApiOrderToOrder (sampleApiOrder 7 52 ''Cash'')]"
    using mapApiOrderToOrder_never_fails
            [of _ "[sampleApiOrder 3 999 ''Cash'', sampleApiOrder 7 52 ''Cash'']"]
    by simp
  from a b c d e show ?thesis by blast
qed


text \<open>
  Claim C2 as stated fails: the raw order with \<open>statusId\<close> 999, which the registry does
  not know, is mapped to an order and no \<open>UnknownStatus\<close> error is raised.
\<close>

theorem unknown_status_counterexample:
  "ORDER_STATUSES (toString (api_statusId (sampleApiOrder 3 999 ''Cash''))) = None \<and>
   mapApiOrderToOrder_call (sampleApiOrder 3 999 ''Cash'') \<noteq> Inl UnknownStatus \<and>
   mapApiOrderToOrder_call (sampleApiOrder 3 999 ''Cash'') =
     Inr (mapApiOrderToOrder (sampleApiOrder 3 999 ''Cash'')) \<and>
   status (mapApiOrderToOrder (sampleApiOrder 3 999 ''Cash'')) = None \<and>
   statusId (mapApiOrderToOrder (sampleApiOrder 3 999 ''Cash'')) = 999"
  by (simp add: mapApiOrderToOrder_call_def mapApiOrderToOrder_def Let_def sampleApiOrder_def
                unregistered_999)

text \<open>
  Claim C4, as the code has it. With the storage answering, \<open>getRejectedOrderIds\<close> clears
  the record and returns the empty list exactly when more than three times 24 hours lie
  between midnight UTC of the record's date and the instant of the read. So a record dated
  4 or more calendar days before today is cleared, a record dated at most 2 days before
  today is returned and kept, and a record dated exactly 3 calendar days before today is
  kept only by a read at midnight UTC sharp and cleared by any later read of that day.
\<close>

theorem getRejectedOrderIds_expiry:
  "\<not> getItemFails env \<Longrightarrow> \<not> removeItemFails env \<Longrightarrow>
   getRejectedOrderIds env (Some r) =
     (if now env - date r * MS_PER_DAY > 3 * MS_PER_DAY then ([], None)
      else (orderIds r, Some r)) \<and>
   (getCurrentDateString env - date r \<ge> 4 \<longrightarrow>
      getRejectedOrderIds env (Some r) = ([], None)) \<and>
   (getCurrentDateString env - date r \<le> 2 \<longrightarrow>
      getRejectedOrderIds env (Some r) = (orderIds r, Some r)) \<and>
   (getCurrentDateString env - date r = 3 \<longrightarrow>
      getRejectedOrderIds env (Some r) =
        (if now env mod MS_PER_DAY = 0 then (orderIds r, Some r) else ([], None)))"
proof -
  assume io: "\<not> getItemFails env" "\<not> removeItemFails env"
  define q where "q = getCurrentDateString env"
  define m where "m = now env mod MS_PER_DAY"
  define d where "d = date r"
  have split: "now env = q * 86400000 + m" "0 \<le> m" "m < 86400000"
    using now_split [of env] by (simp_all add: q_def m_def MS_PER_DAY_def)
  have expired: "now env - date r * MS_PER_DAY > 3 * MS_PER_DAY \<longleftrightarrow>
                   q - d > 3 \<or> (q - d = 3 \<and> m \<noteq> 0)"
    using split by (auto simp: MS_PER_DAY_def d_def)
  show ?thesis
    unfolding getRejectedOrderIds_ok [OF io] expired
    by (auto simp: q_def [symmetric] m_def [symmetric] d_def [symmetric])
qed

theorem getRejectedOrderIds_expiry_witness:
  "\<not> getItemFails (sampleEnv 1728345600000) \<and>
   \<not> removeItemFails (sampleEnv 1728345600000) \<and>
   getCurrentDateString (sampleEnv 1728345600000) - date sampleRecord \<ge> 4 \<and>
   getRejectedOrderIds (sampleEnv 1728345600000) (Some sampleRecord) = ([], None) \<and>
   \<not> getItemFails (sampleEnv 1728172800005) \<and>
   \<not> removeItemFails (sampleEnv 1728172800005) \<and>
   getCurrentDateString (sampleEnv 1728172800005) - date sampleRecord \<le> 2 \<and>
   getRejectedOrderIds (sampleEnv 1728172800005) (Some sampleRecord) =
     ([''17'', ''21''], Some sampleRecord) \<and>
   getCurrentDateString (sampleEnv 1728259200000) - date sampleRecord = 3 \<and>
   getRejectedOrderIds (sampleEnv 1728259200000) (Some sampleRecord) =
     ([''17'', ''21''], Some sampleRecord)"
proof -
  have io: "\<not> getItemFails (sampleEnv t)" "\<not> removeItemFails (sampleEnv t)" for t
    by (simp_all add: sampleEnv_def)
  have a: "getCurrentDateString (sampleEnv 1728345600000) - date sampleRecord \<ge> 4"
    and b: "getCurrentDateString (sampleEnv 1728172800005) - date sampleRecord \<le> 2"
    and c: "getCurrentDateString (sampleEnv 1728259200000) - date sampleRecord = 3"
    and c': "now (sampleEnv 1728259200000) mod MS_PER_DAY = 0"
    by (simp_all add: getCurrentDateString_def sampleEnv_def sampleRecord_def MS_PER_DAY_def)
  have ids: "orderIds sampleRecord = [''17'', ''21'']" by (simp add: sampleRecord_def)
  have r1: "getRejectedOrderIds (sampleEnv 1728345600000) (Some sampleRecord) = ([], None)"
    using a getRejectedOrderIds_expiry [OF io, of "1728345600000" sampleRecord] by blast
  have "getRejectedOrderIds (sampleEnv 1728172800005) (Some sampleRecord) =
          (orderIds sampleRecord, Some sampleRecord)"
    using b getRejectedOrderIds_expiry [OF io, of "1728172800005" sampleRecord] by blast
  then have r2: "getRejectedOrderIds (sampleEnv 1728172800005) (Some sampleRecord) =
          ([''17'', ''21''], Some sampleRecord)"
    by (simp only: ids)
  have "getRejectedOrderIds (sampleEnv 1728259200000) (Some sampleRecord) =
          (if now (sampleEnv 1728259200000) mod MS_PER_DAY = 0
           then (orderIds sampleRecord, Some sampleRecord) else ([], None))"
    using c getRejectedOrderIds_expiry [OF io, of "1728259200000" sampleRecord] by blast
  then have r3: "getRejectedOrderIds (sampleEnv 1728259200000) (Some sampleRecord) =
          ([''17'', ''21''], Some sampleRecord)"
    by (simp add: c' ids)
  from io a b c r1 r2 r3 show ?thesis by blast
qed

text \<open>
  Claim C4 as stated fails: at noon UTC of day 20003 a record dated day 20000, exactly 3
  calendar days earlier, is cleared and the empty list is returned.
\<close>

theorem three_days_retained_counterexample:
  "getCurrentDateString (sampleEnv 1728302400000) - date sampleRecord = 3 \<and>
   getRejectedOrderIds (sampleEnv 1728302400000) (Some sampleRecord) = ([], None)"
  by (simp add: getRejectedOrderIds_def getRejectedOrdersData_def clearRejectedOrders_def
                isDateOlderThan3Days_iff getCurrentDateString_def sampleEnv_def sampleRecord_def
                MS_PER_DAY_def)

text \<open>
  Claim C6. When the writes succeed, rejecting the same order id twice on one calendar day
  leaves a record of that day in which the id occurs exactly once, and when the second
  call can read the storage it changes nothing. Rejecting on a day other than the stored
  record's day replaces the record by one that holds the new id alone. In every record
  that a history of ledger calls leaves, starting from an empty storage, the ids are
  pairwise different and each was rejected on the one day the record carries.
\<close>

theorem addRejectedOrder_idempotent:
  "(\<not> setItemFails e1 \<and> \<not> setItemFails e2 \<and>
    getCurrentDateString e1 = getCurrentDateString e2 \<longrightarrow>
      (\<exists>r. addRejectedOrder e2 oid (addRejectedOrder e1 oid store) = Some r \<and>
           date r = getCurrentDateString e2 \<and> count_list (orderIds r) oid = 1) \<and>
      (\<not> getItemFails e2 \<longrightarrow>
         addRejectedOrder e2 oid (addRejectedOrder e1 oid store) =
         addRejectedOrder e1 oid store)) \<and>
   (\<not> setItemFails e \<and> date old \<noteq> getCurrentDateString e \<longrightarrow>
      addRejectedOrder e oid (Some old) =
        Some \<lparr>date = getCurrentDateString e, orderIds = [oid]\<rparr>) \<and>
   (\<forall>r. ledger_run None ops = Some r \<longrightarrow>
      distinct (orderIds r) \<and>
      (\<forall>i \<in> set (orderIds r).
         \<exists>x \<in> set ops. snd x = Reject i \<and> getCurrentDateString (fst x) = date r))"
proof -
  have twice: "\<not> setItemFails e1 \<and> \<not> setItemFails e2 \<and>
    getCurrentDateString e1 = getCurrentDateString e2 \<longrightarrow>
      (\<exists>r. addRejectedOrder e2 oid (addRejectedOrder e1 oid store) = Some r \<and>
           date r = getCurrentDateString e2 \<and> count_list (orderIds r) oid = 1) \<and>
      (\<not> getItemFails e2 \<longrightarrow>
         addRejectedOrder e2 oid (addRejectedOrder e1 oid store) =
         addRejectedOrder e1 oid store)"
    using addRejectedOrder_written [of e2 oid "addRejectedOrder e1 oid store"]
      addRejectedOrder_twice [of e1 e2 oid store]
    by blast
  have replace: "\<not> setItemFails e \<and> date old \<noteq> getCurrentDateString e \<longrightarrow>
      addRejectedOrder e oid (Some old) =
        Some \<lparr>date = getCurrentDateString e, orderIds = [oid]\<rparr>"
    by (simp add: addRejectedOrder_def getRejectedOrdersData_def Let_def)
  have inv: "\<forall>r. ledger_run None ops = Some r \<longrightarrow>
      distinct (orderIds r) \<and>
      (\<forall>i \<in> set (orderIds r).
         \<exists>x \<in> set ops. snd x = Reject i \<and> getCurrentDateString (fst x) = date r)"
    using ledger_inv_run [of ops] by (simp add: ledger_inv_def)
  from twice replace inv show ?thesis by blast
qed


theorem addRejectedOrder_idempotent_witness:
  "\<not> setItemFails (sampleEnv 1728000000000) \<and> \<not> setItemFails (sampleEnv 1728000000500) \<and>
   \<not> getItemFails (sampleEnv 1728000000500) \<and>
   getCurrentDateString (sampleEnv 1728000000000) =
     getCurrentDateString (sampleEnv 1728000000500) \<and>
   addRejectedOrder (sampleEnv 1728000000500) ''17''
       (addRejectedOrder (sampleEnv 1728000000000) ''17'' (Some sampleRecord)) =
     addRejectedOrder (sampleEnv 1728000000000) ''17'' (Some sampleRecord) \<and>
   date sampleRecord \<noteq> getCurrentDateString (sampleEnv 1728345600000) \<and>
   addRejectedOrder (sampleEnv 1728345600000) ''30'' (Some sampleRecord) =
     Some \<lparr>date = getCurrentDateString (sampleEnv 1728345600000), orderIds = [''30'']\<rparr> \<and>
   ledger_run None [(sampleEnv 1728000000000, Reject ''17''),
                    (sampleEnv 1728000000500, Reject ''21'')] = Some sampleRecord \<and>
   distinct (orderIds sampleRecord)"
proof -
  have io: "\<not> setItemFails (sampleEnv t)" "\<not> getItemFails (sampleEnv t)" for t
    by (simp_all add: sampleEnv_def)
  have day: "getCurrentDateString (sampleEnv 1728000000000) =
             getCurrentDateString (sampleEnv 1728000000500)"
    by (simp add: getCurrentDateString_def sampleEnv_def MS_PER_DAY_def)
  have other: "date sampleRecord \<noteq> getCurrentDateString (sampleEnv 1728345600000)"
    by (simp add: getCurrentDateString_def sampleEnv_def MS_PER_DAY_def sampleRecord_def)
  have run: "ledger_run None [(sampleEnv 1728000000000, Reject ''17''),
                    (sampleEnv 1728000000500, Reject ''21'')] = Some sampleRecord"
    by (simp add: ledger_run_def addRejectedOrder_def getRejectedOrdersData_def Let_def
                  getCurrentDateString_def sampleEnv_def MS_PER_DAY_def sampleRecord_def
                  newSet_def set_add_def)
  note twice = addRejectedOrder_idempotent
    [of "sampleEnv 1728000000000" "sampleEnv 1728000000500" "''17''" "Some sampleRecord" _ _
        "[(sampleEnv 1728000000000, Reject ''17''), (sampleEnv 1728000000500, Reject ''21'')]"]
  note other_day = addRejectedOrder_idempotent
    [of _ _ "''30''" _ "sampleEnv 1728345600000" sampleRecord]
  from io day other run twice other_day show ?thesis by blast
qed

text \<open>
  Claim C5. \<open>handleUpdateOrderStatus\<close> does nothing without an order or without a next
  status. Otherwise it first calls the backend. If that call fails, the order, the
  published events, the callback runs and the navigation are as before, and an error
  alert is raised. If it succeeds, \<open>statusId\<close> becomes the next code and \<open>status\<close> the
  registry's name of that code, both in one update, and \<open>orderUpdated\<close> is published.
\<close>

theorem handleUpdateOrderStatus_atomic:
  "(order s = None \<longrightarrow> handleUpdateOrderStatus cb res s = s) \<and>
   (\<forall>ord. order s = Some ord \<longrightarrow>
      (getNextStatusId (statusId ord) = None \<longrightarrow> handleUpdateOrderStatus cb res s = s) \<and>
      (\<forall>n. getNextStatusId (statusId ord) = Some n \<longrightarrow>
         (order (handleUpdateOrderStatus cb (UpdateFailed m) s) = Some ord \<and>
          emitted (handleUpdateOrderStatus cb (UpdateFailed m) s) = emitted s \<and>
          callbackRuns (handleUpdateOrderStatus cb (UpdateFailed m) s) = callbackRuns s \<and>
          goBacks (handleUpdateOrderStatus cb (UpdateFailed m) s) = goBacks s \<and>
          alerts (handleUpdateOrderStatus cb (UpdateFailed m) s) =
            alerts s @ [(''Error'', message_or m ''Failed to update order status'')] \<and>
          updateCalls (handleUpdateOrderStatus cb (UpdateFailed m) s) =
            updateCalls s @
              [\<lparr>status_id = parseInt10 (order_id ord), status_statusId = n,
                deliveryStaffId = 0, deliveryStaffContactNo = []\<rparr>]) \<and>
         (\<exists>info. ORDER_STATUSES (toString n) = Some info \<and>
            order (handleUpdateOrderStatus cb UpdateOk s) =
              Some (ord\<lparr>statusId := n, status := Some (info_name info)\<rparr>) \<and>
            emitted (handleUpdateOrderStatus cb UpdateOk s) = emitted s @ [''orderUpdated''] \<and>
            updateCalls (handleUpdateOrderStatus cb UpdateOk s) =
              updateCalls s @
                [\<lparr>status_id = parseInt10 (order_id ord), status_statusId = n,
                  deliveryStaffId = 0, deliveryStaffContactNo = []\<rparr>])))"
proof -
  have none: "order s = None \<longrightarrow> handleUpdateOrderStatus cb res s = s"
    by (simp add: handleUpdateOrderStatus_def)
  have stuck: "order s = Some ord \<Longrightarrow> getNextStatusId (statusId ord) = None \<Longrightarrow>
      handleUpdateOrderStatus cb res s = s" for ord
    by (simp add: handleUpdateOrderStatus_def)
  have step: "order s = Some ord \<Longrightarrow> getNextStatusId (statusId ord) = Some n \<Longrightarrow>
         (order (handleUpdateOrderStatus cb (UpdateFailed m) s) = Some ord \<and>
          emitted (handleUpdateOrderStatus cb (UpdateFailed m) s) = emitted s \<and>
          callbackRuns (handleUpdateOrderStatus cb (UpdateFailed m) s) = callbackRuns s \<and>
          goBacks (handleUpdateOrderStatus cb (UpdateFailed m) s) = goBacks s \<and>
          alerts (handleUpdateOrderStatus cb (UpdateFailed m) s) =
            alerts s @ [(''Error'', message_or m ''Failed to update order status'')] \<and>
          updateCalls (handleUpdateOrderStatus cb (UpdateFailed m) s) =
            updateCalls s @
              [\<lparr>status_id = parseInt10 (order_id ord), status_statusId = n,
                deliveryStaffId = 0, deliveryStaffContactNo = []\<rparr>]) \<and>
         (\<exists>info. ORDER_STATUSES (toString n) = Some info \<and>
            order (handleUpdateOrderStatus cb UpdateOk s) =
              Some (ord\<lparr>statusId := n, status := Some (info_name info)\<rparr>) \<and>
            emitted (handleUpdateOrderStatus cb UpdateOk s) = emitted s @ [''orderUpdated''] \<and>
            updateCalls (handleUpdateOrderStatus cb UpdateOk s) =
              updateCalls s @
                [\<lparr>status_id = parseInt10 (order_id ord), status_statusId = n,
                  deliveryStaffId = 0, deliveryStaffContactNo = []\<rparr>])" for ord n
  proof -
    assume o: "order s = Some ord" and nx: "getNextStatusId (statusId ord) = Some n"
    from nx have n0: "n \<noteq> 0" by (auto simp: getNextStatusId_Some)
    from successor_registered [OF nx] obtain info where
      info: "ORDER_STATUSES (toString n) = Some info" "info_name info \<noteq> []" by blast
    have fail: "handleUpdateOrderStatus cb (UpdateFailed m) s =
        s\<lparr>loading := False,
          updateCalls := updateCalls s @
              [\<lparr>status_id = parseInt10 (order_id ord), status_statusId = n,
                deliveryStaffId = 0, deliveryStaffContactNo = []\<rparr>],
          alerts := alerts s @ [(''Error'', message_or m ''Failed to update order status'')]\<rparr>"
      using o nx n0 by (simp add: handleUpdateOrderStatus_def Let_def)
    have ok: "order (handleUpdateOrderStatus cb UpdateOk s) =
              Some (ord\<lparr>statusId := n, status := Some (info_name info)\<rparr>) \<and>
            emitted (handleUpdateOrderStatus cb UpdateOk s) = emitted s @ [''orderUpdated''] \<and>
            updateCalls (handleUpdateOrderStatus cb UpdateOk s) =
              updateCalls s @
                [\<lparr>status_id = parseInt10 (order_id ord), status_statusId = n,
                  deliveryStaffId = 0, deliveryStaffContactNo = []\<rparr>]"
      using o nx n0 info
      by (simp add: handleUpdateOrderStatus_def Let_def or_undefined_def
               split: option.splits CallbackOutcome.splits)
    from o fail ok info(1) show ?thesis by simp
  qed
  from none stuck step show ?thesis by blast
qed


theorem handleUpdateOrderStatus_atomic_witness:
  "order (sampleScreen (sampleOrder 7 52)) = Some (sampleOrder 7 52) \<and>
   getNextStatusId (statusId (sampleOrder 7 52)) = Some 53 \<and>
   order (handleUpdateOrderStatus NoKey (UpdateFailed (Some ''Network Error''))
            (sampleScreen (sampleOrder 7 52))) = Some (sampleOrder 7 52) \<and>
   emitted (handleUpdateOrderStatus NoKey (UpdateFailed (Some ''Network Error''))
            (sampleScreen (sampleOrder 7 52))) = [] \<and>
   order (handleUpdateOrderStatus NoKey UpdateOk (sampleScreen (sampleOrder 7 52))) =
     Some ((sampleOrder 7 52)\<lparr>statusId := 53, status := Some ''started''\<rparr>) \<and>
   emitted (handleUpdateOrderStatus NoKey UpdateOk (sampleScreen (sampleOrder 7 52))) =
     [''orderUpdated'']"
proof -
  let ?s = "sampleScreen (sampleOrder 7 52)"
  have o: "order ?s = Some (sampleOrder 7 52)" and e: "emitted ?s = []"
    by (simp_all add: sampleScreen_def)
  have nx: "getNextStatusId (statusId (sampleOrder 7 52)) = Some 53"
    by (simp add: statusId_sampleOrder getNextStatusId_def statusProgression_def)
  note inst = handleUpdateOrderStatus_atomic
    [of ?s NoKey UpdateOk "Some ''Network Error''"]
  from inst o nx have fail:
    "order (handleUpdateOrderStatus NoKey (UpdateFailed (Some ''Network Error'')) ?s) =
       Some (sampleOrder 7 52)"
    "emitted (handleUpdateOrderStatus NoKey (UpdateFailed (Some ''Network Error'')) ?s) =
       emitted ?s"
    by blast+
  from inst o nx obtain info where info: "ORDER_STATUSES (toString 53) = Some info"
    and ok: "order (handleUpdateOrderStatus NoKey UpdateOk ?s) =
               Some ((sampleOrder 7 52)\<lparr>statusId := 53, status := Some (info_name info)\<rparr>)"
            "emitted (handleUpdateOrderStatus NoKey UpdateOk ?s) = emitted ?s @ [''orderUpdated'']"
    by blast
  from info have "info_name info = ''started''"
    by (auto simp: registered_53 mkInfo_def)
  with o nx fail ok e show ?thesis by simp
qed

end
